theory Spec2Isabelle
  imports Main
begin

section \<open>The Broadcaster durable object (presence broadcast coordinator)\<close>

text \<open>
  The class \<^verbatim>\<open>Broadcaster\<close> keeps two fields of its own (\<^verbatim>\<open>lastActivity\<close>,
  \<^verbatim>\<open>meetupStartTime\<close>) and works on three things the hosting runtime owns: the list
  of accepted WebSockets (\<^verbatim>\<open>ctx.getWebSockets()\<close>), the key-value storage
  (\<^verbatim>\<open>ctx.storage\<close>) and the single alarm of the object (\<^verbatim>\<open>ctx.storage.setAlarm\<close>).
  Every handler is a function from the state before to the state after. Times are
  milliseconds since the epoch, as \<^verbatim>\<open>Date.now()\<close> returns them; the clock is read once
  per handler run (the runtime does not advance \<^verbatim>\<open>Date.now()\<close> while a handler runs
  without I/O), so each handler takes the reading as its argument \<open>now\<close>.
\<close>

subsection \<open>Values, sockets, calls and console lines\<close>

text \<open>
  The value handed to \<^verbatim>\<open>JSON.stringify\<close>. The serialised text is determined by the
  value, so a message on the wire is represented by the value itself.
  \<open>ISOString t\<close> stands for the string \<^verbatim>\<open>new Date(t).toISOString()\<close>.
\<close>

datatype jsvalue =
    JNull
  | JBool bool
  | JNum int
  | JStr string
  | ISOString int
  | JArr "jsvalue list"
  | JObj "(string \<times> jsvalue) list"

text \<open>
  A WebSocket handle. \<open>send_throws\<close> says whether \<^verbatim>\<open>ws.send\<close> throws on this handle
  (a stale or broken connection), \<open>close_throws\<close> the same for \<^verbatim>\<open>ws.close\<close>.
\<close>

record websocket =
  ws_id :: nat
  send_throws :: bool
  close_throws :: bool

text \<open>The calls on the runtime that returned normally, in the order they were made.\<close>

datatype call =
    AcceptWebSocket nat
  | Send nat jsvalue
  | Close nat nat string
  | StorageGet string
  | StoragePut string int
  | StorageDeleteAll
  | SetAlarm int

text \<open>One constructor for each \<^verbatim>\<open>console.log\<close> / \<^verbatim>\<open>console.error\<close> of the class.\<close>

datatype logline =
    LoadedStartTime int
  | InitializedStartTime int
  | ErrorHandlingBroadcast
  | NewConnection nat
  | ErrorSendingConnectionMessage
  | WebSocketClosed nat nat
  | NoMoreConnections
  | WebSocketErrorLine
  | Broadcasting string nat
  | ErrorSendingToClient
  | ScheduledAlarm int
  | AlarmTriggered int int nat
  | MeetupEndedIdle
  | ClosingConnections nat
  | ErrorClosingConnection

datatype exn = SendFailed | CloseFailed

record broadcaster =
  lastActivity :: int
  meetupStartTime :: int
  sockets :: "websocket list"
  storage :: "string \<rightharpoonup> int"
  alarmTime :: "int option"
  calls :: "call list"
  console :: "logline list"

subsection \<open>The runtime's operations\<close>

definition console_log :: "logline \<Rightarrow> broadcaster \<Rightarrow> broadcaster" where
  "console_log l st = st\<lparr>console := console st @ [l]\<rparr>"

definition record_call :: "call \<Rightarrow> broadcaster \<Rightarrow> broadcaster" where
  "record_call c st = st\<lparr>calls := calls st @ [c]\<rparr>"

definition acceptWebSocket :: "websocket \<Rightarrow> broadcaster \<Rightarrow> broadcaster" where
  "acceptWebSocket ws st =
     record_call (AcceptWebSocket (ws_id ws)) (st\<lparr>sockets := sockets st @ [ws]\<rparr>)"

definition getWebSockets :: "broadcaster \<Rightarrow> websocket list" where
  "getWebSockets st = sockets st"

definition ws_send :: "websocket \<Rightarrow> jsvalue \<Rightarrow> broadcaster \<Rightarrow> exn + broadcaster" where
  "ws_send ws m st =
     (if send_throws ws then Inl SendFailed else Inr (record_call (Send (ws_id ws) m) st))"

definition ws_close :: "websocket \<Rightarrow> nat \<Rightarrow> string \<Rightarrow> broadcaster \<Rightarrow> exn + broadcaster" where
  "ws_close ws code reason st =
     (if close_throws ws then Inl CloseFailed
      else Inr (record_call (Close (ws_id ws) code reason) st))"

definition storage_get :: "string \<Rightarrow> broadcaster \<Rightarrow> int option \<times> broadcaster" where
  "storage_get k st = (storage st k, record_call (StorageGet k) st)"

definition storage_put :: "string \<Rightarrow> int \<Rightarrow> broadcaster \<Rightarrow> broadcaster" where
  "storage_put k v st = record_call (StoragePut k v) (st\<lparr>storage := (storage st)(k \<mapsto> v)\<rparr>)"

definition storage_deleteAll :: "broadcaster \<Rightarrow> broadcaster" where
  "storage_deleteAll st = record_call StorageDeleteAll (st\<lparr>storage := Map.empty\<rparr>)"

text \<open>The object has one alarm: setting it replaces the one that was set.\<close>

definition storage_setAlarm :: "int \<Rightarrow> broadcaster \<Rightarrow> broadcaster" where
  "storage_setAlarm t st = record_call (SetAlarm t) (st\<lparr>alarmTime := Some t\<rparr>)"

subsection \<open>The methods of the class\<close>

text \<open>
  The constructor starts from what the runtime kept (\<open>rt\<close>: sockets, storage, alarm) and
  sets both fields to the clock; \<^verbatim>\<open>if (stored)\<close> is false for a missing key and for
  the number 0.
\<close>

definition constructor :: "int \<Rightarrow> broadcaster \<Rightarrow> broadcaster" where
  "constructor now rt =
     (let st0 = rt\<lparr>lastActivity := now, meetupStartTime := now\<rparr>;
          (stored, st1) = storage_get ''meetupStartTime'' st0;
          initialise = console_log (InitializedStartTime (meetupStartTime st1))
                         (storage_put ''meetupStartTime'' (meetupStartTime st1) st1)
      in case stored of
           None \<Rightarrow> initialise
         | Some v \<Rightarrow>
             if v \<noteq> 0 then console_log (LoadedStartTime v) (st1\<lparr>meetupStartTime := v\<rparr>)
             else initialise)"

definition scheduleAlarm :: "int \<Rightarrow> broadcaster \<Rightarrow> broadcaster" where
  "scheduleAlarm now st =
     (let alarm_time = now + 30 * 60 * 1000
      in console_log (ScheduledAlarm alarm_time) (storage_setAlarm alarm_time st))"

definition handleWebSocket :: "int \<Rightarrow> websocket \<Rightarrow> broadcaster \<Rightarrow> broadcaster" where
  "handleWebSocket now webSocket st0 =
     (let st1 = acceptWebSocket webSocket st0;
          st2 = st1\<lparr>lastActivity := now\<rparr>;
          connectionCount = length (getWebSockets st2);
          st3 = console_log (NewConnection connectionCount) st2;
          message = JObj [(''type'', JStr ''connected''),
                          (''timestamp'', ISOString now),
                          (''connectionCount'', JNum (int connectionCount))];
          st4 = (case ws_send webSocket message st3 of
                   Inl err \<Rightarrow> console_log ErrorSendingConnectionMessage st3
                 | Inr st' \<Rightarrow> st')
      in scheduleAlarm now st4)"

definition webSocketMessage :: "int \<Rightarrow> websocket \<Rightarrow> string \<Rightarrow> broadcaster \<Rightarrow> broadcaster" where
  "webSocketMessage now ws message st = st\<lparr>lastActivity := now\<rparr>"

definition webSocketClose ::
  "int \<Rightarrow> websocket \<Rightarrow> nat \<Rightarrow> string \<Rightarrow> bool \<Rightarrow> broadcaster \<Rightarrow> broadcaster" where
  "webSocketClose now ws code reason wasClean st0 =
     (let st1 = st0\<lparr>lastActivity := now\<rparr>;
          connectionCount = length (getWebSockets st1);
          st2 = console_log (WebSocketClosed code connectionCount) st1
      in if connectionCount = 0
         then scheduleAlarm now (console_log NoMoreConnections st2)
         else st2)"

definition webSocketError :: "websocket \<Rightarrow> broadcaster \<Rightarrow> broadcaster" where
  "webSocketError ws st = console_log WebSocketErrorLine st"

text \<open>The body of \<^verbatim>\<open>connections.forEach\<close> in \<^verbatim>\<open>broadcast\<close>, with its try/catch.\<close>

fun send_each :: "jsvalue \<Rightarrow> websocket list \<Rightarrow> broadcaster \<Rightarrow> broadcaster" where
  "send_each message [] st = st"
| "send_each message (ws # rest) st =
     send_each message rest
       (case ws_send ws message st of
          Inl err \<Rightarrow> console_log ErrorSendingToClient st
        | Inr st' \<Rightarrow> st')"

definition broadcast :: "string \<Rightarrow> jsvalue \<Rightarrow> broadcaster \<Rightarrow> broadcaster" where
  "broadcast event payload st0 =
     (let message = JObj [(''type'', JStr event), (''data'', payload)];
          connections = getWebSockets st0;
          st1 = console_log (Broadcasting event (length connections)) st0
      in send_each message connections st1)"

definition idle_payload :: jsvalue where
  "idle_payload = JObj [(''reason'', JStr ''idle''),
                        (''message'', JStr ''Meetup ended due to inactivity'')]"

definition alarm :: "int \<Rightarrow> broadcaster \<Rightarrow> broadcaster" where
  "alarm now st0 =
     (let idleTime = now - lastActivity st0;
          totalTime = now - meetupStartTime st0;
          connectionCount = length (getWebSockets st0);
          st1 = console_log (AlarmTriggered idleTime totalTime connectionCount) st0
      in if connectionCount = 0 \<and> idleTime > 2 * 60 * 60 * 1000
         then storage_deleteAll
                (broadcast ''meetup-ended'' idle_payload (console_log MeetupEndedIdle st1))
         else scheduleAlarm now st1)"

text \<open>The body of \<^verbatim>\<open>connections.forEach\<close> in \<^verbatim>\<open>closeAllConnections\<close>.\<close>

fun close_each :: "websocket list \<Rightarrow> broadcaster \<Rightarrow> broadcaster" where
  "close_each [] st = st"
| "close_each (ws # rest) st =
     close_each rest
       (case ws_close ws 1000 ''Meetup ended'' st of
          Inl err \<Rightarrow> console_log ErrorClosingConnection st
        | Inr st' \<Rightarrow> st')"

definition closeAllConnections :: "broadcaster \<Rightarrow> broadcaster" where
  "closeAllConnections st0 =
     (let connections = getWebSockets st0;
          st1 = console_log (ClosingConnections (length connections)) st0
      in close_each connections st1)"

text \<open>
  \<^verbatim>\<open>fetch\<close>. A request is its path, method, \<^verbatim>\<open>Upgrade\<close> header and body; the body is
  \<open>None\<close> when \<^verbatim>\<open>request.json()\<close> or the destructuring of its result throws, and the
  pair of \<^verbatim>\<open>event\<close> and \<^verbatim>\<open>data\<close> otherwise. \<open>server\<close> is the server end of the
  \<^verbatim>\<open>WebSocketPair\<close> the runtime creates. The response is its status code.
\<close>

record request =
  pathname :: string
  http_method :: string
  upgrade :: "string option"
  body :: "(string \<times> jsvalue) option"

definition fetch :: "int \<Rightarrow> websocket \<Rightarrow> request \<Rightarrow> broadcaster \<Rightarrow> nat \<times> broadcaster" where
  "fetch now server req st =
     (if pathname req = ''/ws'' then
        (if upgrade req \<noteq> Some ''websocket'' then (426, st)
         else (101, handleWebSocket now server st))
      else if pathname req = ''/broadcast'' \<and> http_method req = ''POST'' then
        (case body req of
           Some (event, payload) \<Rightarrow> (200, broadcast event payload st)
         | None \<Rightarrow> (400, console_log ErrorHandlingBroadcast st))
      else (404, st))"

subsection \<open>Events as the runtime delivers them\<close>

text \<open>
  The runtime runs one handler at a time. While \<^verbatim>\<open>webSocketClose\<close> runs,
  \<^verbatim>\<open>getWebSockets\<close> still lists the socket that is closing; the runtime drops it from
  the list once the handler has returned. An alarm that fires is no longer set when its
  handler runs. A restart builds a new object over the state the runtime kept.
\<close>

datatype event =
    Restart
  | Request websocket request
  | ClientMessage websocket string
  | Disconnect websocket nat string bool
  | SocketError websocket
  | TimerFires

fun step :: "int \<Rightarrow> event \<Rightarrow> broadcaster \<Rightarrow> broadcaster" where
  "step now Restart st = constructor now st"
| "step now (Request server req) st = snd (fetch now server req st)"
| "step now (ClientMessage ws m) st = webSocketMessage now ws m st"
| "step now (Disconnect ws code reason wasClean) st =
     (let st' = webSocketClose now ws code reason wasClean st
      in st'\<lparr>sockets := filter (\<lambda>w. ws_id w \<noteq> ws_id ws) (sockets st')\<rparr>)"
| "step now (SocketError ws) st = webSocketError ws st"
| "step now TimerFires st = alarm now (st\<lparr>alarmTime := None\<rparr>)"

fun run :: "(int \<times> event) list \<Rightarrow> broadcaster \<Rightarrow> broadcaster" where
  "run [] st = st"
| "run ((now, e) # es) st = run es (step now e st)"

text \<open>The runtime before the object is first built: nothing stored, nothing connected.\<close>

definition fresh :: broadcaster where
  "fresh = \<lparr>lastActivity = 0, meetupStartTime = 0, sockets = [], storage = Map.empty,
            alarmTime = None, calls = [], console = []\<rparr>"

definition ws_request :: request where
  "ws_request = \<lparr>pathname = ''/ws'', http_method = ''GET'', upgrade = Some ''websocket'',
                 body = None\<rparr>"

definition broadcast_request :: "string \<Rightarrow> jsvalue \<Rightarrow> request" where
  "broadcast_request event payload =
     \<lparr>pathname = ''/broadcast'', http_method = ''POST'', upgrade = None,
      body = Some (event, payload)\<rparr>"

definition good_socket :: "nat \<Rightarrow> websocket" where
  "good_socket n = \<lparr>ws_id = n, send_throws = False, close_throws = False\<rparr>"

definition broken_socket :: "nat \<Rightarrow> websocket" where
  "broken_socket n = \<lparr>ws_id = n, send_throws = True, close_throws = False\<rparr>"

definition after_restart :: broadcaster where
  "after_restart = run [(1000, Restart)] fresh"

definition three_sockets :: broadcaster where
  "three_sockets = fresh\<lparr>sockets := [good_socket 1, broken_socket 2, good_socket 3]\<rparr>"

definition one_connected :: broadcaster where
  "one_connected = run [(1000, Restart), (1000, Request (good_socket 1) ws_request)] fresh"

definition two_connected :: broadcaster where
  "two_connected =
     run [(1000, Restart), (1000, Request (good_socket 1) ws_request),
          (2000, Request (good_socket 2) ws_request)] fresh"

definition all_left :: broadcaster where
  "all_left =
     run [(1000, Restart), (1000, Request (good_socket 1) ws_request),
          (2000, Disconnect (good_socket 1) 1000 [] True)] fresh"

subsection \<open>Observations on a run\<close>

text \<open>A sequence of restarts, and the number of times the start time was written.\<close>

definition restarts :: "int list \<Rightarrow> broadcaster \<Rightarrow> broadcaster" where
  "restarts nows st = run (map (\<lambda>t. (t, Restart)) nows) st"

fun is_start_put :: "call \<Rightarrow> bool" where
  "is_start_put (StoragePut k v) = (k = ''meetupStartTime'')"
| "is_start_put c = False"

definition start_writes :: "broadcaster \<Rightarrow> nat" where
  "start_writes st = length (filter is_start_put (calls st))"

text \<open>Every clock reading of a run is after the epoch.\<close>

definition clocks_positive :: "(int \<times> event) list \<Rightarrow> bool" where
  "clocks_positive evs = list_all (\<lambda>(t, e). 0 < t) evs"

fun is_close :: "call \<Rightarrow> bool" where
  "is_close (Close w code reason) = True"
| "is_close c = False"

fun is_closing_line :: "logline \<Rightarrow> bool" where
  "is_closing_line (ClosingConnections n) = True"
| "is_closing_line l = False"

section \<open>The identity verification pipeline\<close>

text \<open>
  Modelled from the spec: the function \<^verbatim>\<open>decodeAndVerifyJWT\<close> of the package
  \<^verbatim>\<open>@meetup/shared\<close> is imported by the worker and is not among the sources. The
  types below are the specification's \<^verbatim>\<open>VerificationError\<close> taxonomy, its
  \<^verbatim>\<open>AssertionPayload\<close> and its \<^verbatim>\<open>VerificationPolicy\<close>. Byte strings are
  \<open>string\<close>s (a \<open>char\<close> is a byte).
\<close>

datatype verification_error =
    MalformedToken
  | Expired
  | AudienceMismatch
  | InvalidIdentifier
  | InvalidSignature

record assertion_payload =
  issuer :: string
  issuedData :: "(string \<times> jsvalue) list"
  expiresAt :: "int option"
  audience :: "string option"

record verification_policy =
  requireAudience :: bool
  expectedAudience :: string

text \<open>
  Modelled from the spec: the leaves the pipeline composes, which the specification names
  and does not define: base64url decoding, the decoding of the payload JSON into an
  \<^verbatim>\<open>AssertionPayload\<close> (\<open>None\<close> when \<^verbatim>\<open>issuer\<close> is absent or of the wrong shape),
  base58 decoding, the two-byte Ed25519 multicodec tag and the Ed25519 signature check
  (public key, message, signature).
\<close>

record primitives =
  base64url_decode :: "string \<Rightarrow> string option"
  decode_payload :: "string \<Rightarrow> assertion_payload option"
  base58_decode :: "string \<Rightarrow> string option"
  multicodec_tag :: string
  ed25519_verify :: "string \<Rightarrow> string \<Rightarrow> string \<Rightarrow> bool"

fun split_on :: "char \<Rightarrow> string \<Rightarrow> string list" where
  "split_on c [] = [[]]"
| "split_on c (x # xs) =
     (if x = c then [] # split_on c xs
      else (case split_on c xs of
              [] \<Rightarrow> [[x]]
            | seg # segs \<Rightarrow> (x # seg) # segs))"

record decoded_assertion =
  payload_of :: assertion_payload
  signature_of :: string
  signing_input :: string

text \<open>
  Modelled from the spec: steps 1 and 2 of \<^verbatim>\<open>verify\<close> (the Assertion Decoder, absent from
  the sources): exactly three segments split on the dot, each of them valid base64url,
  and a payload that decodes. The signing input is the original \<^verbatim>\<open>header.payload\<close>
  substring.
\<close>

definition decode_assertion :: "primitives \<Rightarrow> string \<Rightarrow> verification_error + decoded_assertion" where
  "decode_assertion P token =
     (case split_on CHR ''.'' token of
        [h, p, s] \<Rightarrow>
          (case (base64url_decode P h, base64url_decode P p, base64url_decode P s) of
             (Some hb, Some pb, Some sb) \<Rightarrow>
               (case decode_payload P pb of
                  Some pl \<Rightarrow>
                    Inr \<lparr>payload_of = pl, signature_of = sb,
                         signing_input = h @ ''.'' @ p\<rparr>
                | None \<Rightarrow> Inl MalformedToken)
           | _ \<Rightarrow> Inl MalformedToken)
      | _ \<Rightarrow> Inl MalformedToken)"

text \<open>
  Modelled from the spec: step 5 of \<^verbatim>\<open>verify\<close> (the Key Resolver, absent from the
  sources): the literal prefix \<^verbatim>\<open>did:key:z\<close>, base58, the multicodec tag, 32 bytes.
\<close>

definition resolveKey :: "primitives \<Rightarrow> string \<Rightarrow> verification_error + string" where
  "resolveKey P did =
     (if take 9 did \<noteq> ''did:key:z'' then Inl InvalidIdentifier
      else (case base58_decode P (drop 9 did) of
              None \<Rightarrow> Inl InvalidIdentifier
            | Some bytes \<Rightarrow>
                if take 2 bytes \<noteq> multicodec_tag P then Inl InvalidIdentifier
                else if length (drop 2 bytes) \<noteq> 32 then Inl InvalidIdentifier
                else Inr (drop 2 bytes)))"

text \<open>
  Modelled from the spec: \<^verbatim>\<open>verify(token, policy)\<close> of section 4.1 (in the code
  \<^verbatim>\<open>decodeAndVerifyJWT\<close>, absent from the sources), its seven steps in order, the first
  failure aborting. \<open>now\<close> is the current time, in the unit of \<^verbatim>\<open>expiresAt\<close>.
\<close>

definition verify ::
  "primitives \<Rightarrow> int \<Rightarrow> verification_policy \<Rightarrow> string \<Rightarrow> verification_error + assertion_payload" where
  "verify P now policy token =
     (case decode_assertion P token of
        Inl e \<Rightarrow> Inl e
      | Inr d \<Rightarrow>
          if (case expiresAt (payload_of d) of Some e \<Rightarrow> e \<le> now | None \<Rightarrow> False)
          then Inl Expired
          else if requireAudience policy \<and>
                  audience (payload_of d) \<noteq> Some (expectedAudience policy)
          then Inl AudienceMismatch
          else (case resolveKey P (issuer (payload_of d)) of
                  Inl e \<Rightarrow> Inl e
                | Inr key \<Rightarrow>
                    if ed25519_verify P key (signing_input d) (signature_of d)
                    then Inr (payload_of d)
                    else Inl InvalidSignature))"

text \<open>
  A test instance: segments and identifiers decode to themselves, every payload decodes
  to the same assertion with the given expiry, and every signature is accepted.
\<close>

definition demo_payload :: "int \<Rightarrow> assertion_payload" where
  "demo_payload e =
     \<lparr>issuer = ''did:key:z6Mk'', issuedData = [(''name'', JStr ''Paul Morphy'')],
      expiresAt = Some e, audience = None\<rparr>"

definition demo_primitives :: "int \<Rightarrow> primitives" where
  "demo_primitives e =
     \<lparr>base64url_decode = Some, decode_payload = (\<lambda>bytes. Some (demo_payload e)),
      base58_decode = Some, multicodec_tag = [CHR 0xED, CHR 0x01],
      ed25519_verify = (\<lambda>key message signature. True)\<rparr>"

definition demo_policy :: verification_policy where
  "demo_policy = \<lparr>requireAudience = False, expectedAudience = []\<rparr>"

section \<open>Properties of the Broadcaster\<close>

lemmas handlers = alarm_def scheduleAlarm_def handleWebSocket_def webSocketClose_def
  webSocketMessage_def webSocketError_def constructor_def fetch_def idle_payload_def

lemmas examples = fresh_def good_socket_def broken_socket_def ws_request_def
  broadcast_request_def

lemmas prims = console_log_def record_call_def getWebSockets_def storage_setAlarm_def
  storage_deleteAll_def storage_put_def storage_get_def acceptWebSocket_def ws_send_def

lemma send_each_eq:
  "send_each m wss st =
     st\<lparr>calls := calls st @
          map (\<lambda>ws. Send (ws_id ws) m) (filter (\<lambda>ws. \<not> send_throws ws) wss),
        console := console st @ map (\<lambda>ws. ErrorSendingToClient) (filter send_throws wss)\<rparr>"
  by (induction wss arbitrary: st) (simp_all add: ws_send_def record_call_def console_log_def)

lemma broadcast_eq:
  "broadcast event payload st =
     st\<lparr>calls := calls st @
          map (\<lambda>ws. Send (ws_id ws) (JObj [(''type'', JStr event), (''data'', payload)]))
              (filter (\<lambda>ws. \<not> send_throws ws) (sockets st)),
        console := console st @ [Broadcasting event (length (sockets st))] @
          map (\<lambda>ws. ErrorSendingToClient) (filter send_throws (sockets st))\<rparr>"
  by (simp add: broadcast_def send_each_eq getWebSockets_def console_log_def Let_def)

lemma after_restart_eq:
  "after_restart = \<lparr>lastActivity = 1000, meetupStartTime = 1000, sockets = [],
     storage = [''meetupStartTime'' \<mapsto> 1000], alarmTime = None,
     calls = [StorageGet ''meetupStartTime'', StoragePut ''meetupStartTime'' 1000],
     console = [InitializedStartTime 1000]\<rparr>"
  by (simp add: after_restart_def fresh_def constructor_def prims)

subsection \<open>The timer handler\<close>

text \<open>
  Claim C1. When the timer fires with no live connection and more than two hours
  (\<open>2 * 60 * 60 * 1000\<close> ms) since \<open>lastActivity\<close>, the handler runs
  \<^verbatim>\<open>broadcast('meetup-ended', {reason: 'idle', ...})\<close> (its console line is there, and
  its sends go to the live set, which is empty), deletes all storage and does not set the
  alarm: the state after differs from the state before in the storage, the call
  \<open>StorageDeleteAll\<close> and the console only. In every other case the only call is
  \<open>SetAlarm\<close> for 30 minutes later, and nothing but the alarm, that call and the console
  changes.
\<close>

theorem alarm_decision:
  "(length (sockets st) = 0 \<and> 2 * 60 * 60 * 1000 < now - lastActivity st \<longrightarrow>
      alarm now st =
        st\<lparr>storage := Map.empty,
           calls := calls st @ [StorageDeleteAll],
           console := console st @
             [AlarmTriggered (now - lastActivity st) (now - meetupStartTime st) 0,
              MeetupEndedIdle, Broadcasting ''meetup-ended'' 0]\<rparr> \<and>
      calls (alarm now st) =
        calls (broadcast ''meetup-ended''
                 (JObj [(''reason'', JStr ''idle''),
                        (''message'', JStr ''Meetup ended due to inactivity'')]) st)
        @ [StorageDeleteAll]) \<and>
   (\<not> (length (sockets st) = 0 \<and> 2 * 60 * 60 * 1000 < now - lastActivity st) \<longrightarrow>
      alarm now st =
        st\<lparr>alarmTime := Some (now + 30 * 60 * 1000),
           calls := calls st @ [SetAlarm (now + 30 * 60 * 1000)],
           console := console st @
             [AlarmTriggered (now - lastActivity st) (now - meetupStartTime st)
                (length (sockets st)),
              ScheduledAlarm (now + 30 * 60 * 1000)]\<rparr>)"
  by (simp add: alarm_def broadcast_eq scheduleAlarm_def idle_payload_def prims Let_def)

theorem alarm_decision_witness:
  "length (sockets after_restart) = 0 \<and>
   2 * 60 * 60 * 1000 < 7201001 - lastActivity after_restart \<and>
   storage (alarm 7201001 after_restart) = Map.empty \<and>
   alarmTime (alarm 7201001 after_restart) = None \<and>
   calls (alarm 7201001 after_restart) = calls after_restart @ [StorageDeleteAll] \<and>
   \<not> (length (sockets after_restart) = 0 \<and>
      2 * 60 * 60 * 1000 < 7201000 - lastActivity after_restart) \<and>
   alarmTime (alarm 7201000 after_restart) = Some 9001000 \<and>
   storage (alarm 7201000 after_restart) = storage after_restart \<and>
   calls (alarm 7201000 after_restart) = calls after_restart @ [SetAlarm 9001000]"
proof -
  have idle: "length (sockets after_restart) = 0 \<and>
      2 * 60 * 60 * 1000 < 7201001 - lastActivity after_restart"
    by (simp add: after_restart_eq)
  have active: "\<not> (length (sockets after_restart) = 0 \<and>
      2 * 60 * 60 * 1000 < 7201000 - lastActivity after_restart)"
    by (simp add: after_restart_eq)
  from alarm_decision [of after_restart 7201001] idle
  have ended: "alarm 7201001 after_restart =
        after_restart\<lparr>storage := Map.empty,
           calls := calls after_restart @ [StorageDeleteAll],
           console := console after_restart @
             [AlarmTriggered (7201001 - lastActivity after_restart)
                (7201001 - meetupStartTime after_restart) 0,
              MeetupEndedIdle, Broadcasting ''meetup-ended'' 0]\<rparr>"
    by blast
  from alarm_decision [of after_restart 7201000] active
  have kept: "alarm 7201000 after_restart =
        after_restart\<lparr>alarmTime := Some (7201000 + 30 * 60 * 1000),
           calls := calls after_restart @ [SetAlarm (7201000 + 30 * 60 * 1000)],
           console := console after_restart @
             [AlarmTriggered (7201000 - lastActivity after_restart)
                (7201000 - meetupStartTime after_restart)
                (length (sockets after_restart)),
              ScheduledAlarm (7201000 + 30 * 60 * 1000)]\<rparr>"
    by blast
  have e1: "storage (alarm 7201001 after_restart) = Map.empty"
    by (subst ended) simp
  have e2: "alarmTime (alarm 7201001 after_restart) = None"
    by (subst ended) (simp add: after_restart_eq)
  have e3: "calls (alarm 7201001 after_restart) = calls after_restart @ [StorageDeleteAll]"
    by (subst ended) simp
  have k1: "alarmTime (alarm 7201000 after_restart) = Some 9001000"
    by (subst kept) simp
  have k2: "storage (alarm 7201000 after_restart) = storage after_restart"
    by (subst kept) simp
  have k3: "calls (alarm 7201000 after_restart) = calls after_restart @ [SetAlarm 9001000]"
    by (subst kept) simp
  from idle active e1 e2 e3 k1 k2 k3 show ?thesis
    by blast
qed

subsection \<open>Broadcast\<close>

text \<open>
  Claim C2. \<^verbatim>\<open>broadcast(event, data)\<close> builds the message \<open>{type: event, data}\<close> once and
  tries every socket of the live set in order. A socket whose \<^verbatim>\<open>send\<close> throws costs one
  console error line and nothing else: every socket whose \<^verbatim>\<open>send\<close> does not throw gets
  the message, so the number of messages sent is the number of sockets less the number of
  throwing ones (N - 1 when one of N throws). Nothing else of the state changes.
\<close>

theorem broadcast_delivers:
  "broadcast event payload st =
     st\<lparr>calls := calls st @
          map (\<lambda>ws. Send (ws_id ws) (JObj [(''type'', JStr event), (''data'', payload)]))
              (filter (\<lambda>ws. \<not> send_throws ws) (sockets st)),
        console := console st @ [Broadcasting event (length (sockets st))] @
          map (\<lambda>ws. ErrorSendingToClient) (filter send_throws (sockets st))\<rparr> \<and>
   (\<forall>ws \<in> set (sockets st). \<not> send_throws ws \<longrightarrow>
      Send (ws_id ws) (JObj [(''type'', JStr event), (''data'', payload)])
        \<in> set (calls (broadcast event payload st))) \<and>
   length (calls (broadcast event payload st)) + length (filter send_throws (sockets st)) =
     length (calls st) + length (sockets st)"
proof -
  let ?m = "JObj [(''type'', JStr event), (''data'', payload)]"
  have eq: "broadcast event payload st =
     st\<lparr>calls := calls st @
          map (\<lambda>ws. Send (ws_id ws) ?m) (filter (\<lambda>ws. \<not> send_throws ws) (sockets st)),
        console := console st @ [Broadcasting event (length (sockets st))] @
          map (\<lambda>ws. ErrorSendingToClient) (filter send_throws (sockets st))\<rparr>"
    by (rule broadcast_eq)
  have mem: "\<forall>ws \<in> set (sockets st). \<not> send_throws ws \<longrightarrow>
      Send (ws_id ws) ?m \<in> set (calls (broadcast event payload st))"
    by (subst eq) auto
  have "length (filter (\<lambda>ws. \<not> send_throws ws) (sockets st)) +
        length (filter send_throws (sockets st)) = length (sockets st)"
    using sum_length_filter_compl [of send_throws "sockets st"] by simp
  then have cnt: "length (calls (broadcast event payload st)) +
      length (filter send_throws (sockets st)) = length (calls st) + length (sockets st)"
    by (subst eq) simp
  from eq mem cnt show ?thesis by blast
qed

theorem broadcast_delivers_witness:
  "calls (broadcast ''user-joined'' (JStr ''did:key:z6Mk'') three_sockets) =
     [Send 1 (JObj [(''type'', JStr ''user-joined''), (''data'', JStr ''did:key:z6Mk'')]),
      Send 3 (JObj [(''type'', JStr ''user-joined''), (''data'', JStr ''did:key:z6Mk'')])] \<and>
   console (broadcast ''user-joined'' (JStr ''did:key:z6Mk'') three_sockets) =
     [Broadcasting ''user-joined'' 3, ErrorSendingToClient] \<and>
   good_socket 3 \<in> set (sockets three_sockets) \<and> \<not> send_throws (good_socket 3) \<and>
   Send 3 (JObj [(''type'', JStr ''user-joined''), (''data'', JStr ''did:key:z6Mk'')])
     \<in> set (calls (broadcast ''user-joined'' (JStr ''did:key:z6Mk'') three_sockets))"
proof -
  have a: "good_socket 3 \<in> set (sockets three_sockets)"
    by (simp add: three_sockets_def fresh_def)
  have b: "\<not> send_throws (good_socket 3)"
    by (simp add: good_socket_def)
  note inst = broadcast_delivers [of "''user-joined''" "JStr ''did:key:z6Mk''" three_sockets]
  from inst a b
  have c: "Send (ws_id (good_socket 3))
             (JObj [(''type'', JStr ''user-joined''), (''data'', JStr ''did:key:z6Mk'')])
           \<in> set (calls (broadcast ''user-joined'' (JStr ''did:key:z6Mk'') three_sockets))"
    by blast
  from inst have d: "broadcast ''user-joined'' (JStr ''did:key:z6Mk'') three_sockets =
     three_sockets\<lparr>calls := calls three_sockets @
          map (\<lambda>ws. Send (ws_id ws) (JObj [(''type'', JStr ''user-joined''), (''data'', JStr ''did:key:z6Mk'')]))
              (filter (\<lambda>ws. \<not> send_throws ws) (sockets three_sockets)),
        console := console three_sockets @ [Broadcasting ''user-joined'' (length (sockets three_sockets))] @
          map (\<lambda>ws. ErrorSendingToClient) (filter send_throws (sockets three_sockets))\<rparr>"
    by blast
  have e: "calls (broadcast ''user-joined'' (JStr ''did:key:z6Mk'') three_sockets) =
     [Send 1 (JObj [(''type'', JStr ''user-joined''), (''data'', JStr ''did:key:z6Mk'')]),
      Send 3 (JObj [(''type'', JStr ''user-joined''), (''data'', JStr ''did:key:z6Mk'')])]"
    by (subst d) (simp add: three_sockets_def fresh_def good_socket_def broken_socket_def)
  have f: "console (broadcast ''user-joined'' (JStr ''did:key:z6Mk'') three_sockets) =
     [Broadcasting ''user-joined'' 3, ErrorSendingToClient]"
    by (subst d) (simp add: three_sockets_def fresh_def good_socket_def broken_socket_def)
  have g: "ws_id (good_socket 3) = 3"
    by (simp add: good_socket_def)
  from a b c e f g show ?thesis
    by simp
qed

subsection \<open>The activity clock\<close>

text \<open>
  Claim C3, as amended. A new connection (\<^verbatim>\<open>handleWebSocket\<close>, also through
  \<^verbatim>\<open>fetch\<close>), a disconnect (\<^verbatim>\<open>webSocketClose\<close>) and a client message
  (\<^verbatim>\<open>webSocketMessage\<close>) each set \<open>lastActivity\<close> to the clock. A broadcast, called
  directly or through \<^verbatim>\<open>POST /broadcast\<close>, leaves \<open>lastActivity\<close> as it was.
\<close>

theorem activity_clock:
  "lastActivity (handleWebSocket now ws st) = now \<and>
   lastActivity (snd (fetch now ws ws_request st)) = now \<and>
   lastActivity (webSocketClose now ws code reason wasClean st) = now \<and>
   lastActivity (step now (Disconnect ws code reason wasClean) st) = now \<and>
   lastActivity (webSocketMessage now ws m st) = now \<and>
   lastActivity (broadcast event payload st) = lastActivity st \<and>
   lastActivity (snd (fetch now ws (broadcast_request event payload) st)) = lastActivity st"
  by (simp add: handlers examples prims broadcast_eq Let_def split: sum.splits)

theorem activity_clock_witness:
  "lastActivity (snd (fetch 5000 (good_socket 1) ws_request after_restart)) = 5000 \<and>
   lastActivity (step 5000 (Disconnect (good_socket 1) 1000 [] True) after_restart) = 5000 \<and>
   lastActivity (broadcast ''user-joined'' JNull after_restart) = 1000"
  using activity_clock [of 5000 "good_socket 1" after_restart 1000 "[]" True "[]"
      "''user-joined''" JNull]
  by (simp add: after_restart_eq)

text \<open>
  Claim C3 as stated fails for the broadcast: after a restart at time 1000, a broadcast
  request at time 5000 leaves \<open>lastActivity\<close> at 1000.
\<close>

theorem broadcast_activity_counterexample:
  "lastActivity after_restart = 1000 \<and>
   lastActivity
     (step 5000 (Request (good_socket 1) (broadcast_request ''user-joined'' JNull))
        after_restart) = 1000 \<and>
   lastActivity
     (step 5000 (Request (good_socket 1) (broadcast_request ''user-joined'' JNull))
        after_restart) \<noteq> 5000"
  by (simp add: after_restart_eq fetch_def broadcast_request_def broadcast_eq)

subsection \<open>Scheduling the timer\<close>

text \<open>
  Claim C4, as amended. Every connect sets the alarm to 30 minutes (\<open>30 * 60 * 1000\<close> ms)
  after the clock. The disconnect handler does so only when \<^verbatim>\<open>getWebSockets\<close> returns
  no socket while it runs; a disconnect that leaves another socket connected makes no
  call and leaves the alarm as it is. A timer firing that does not end the session sets
  the alarm to 30 minutes later (one that ends it leaves the alarm unset). The object has
  a single alarm, and \<^verbatim>\<open>scheduleAlarm\<close> replaces whatever was set.
\<close>

theorem timer_scheduling:
  "alarmTime (handleWebSocket now ws st) = Some (now + 30 * 60 * 1000) \<and>
   alarmTime (step now (Request ws ws_request) st) = Some (now + 30 * 60 * 1000) \<and>
   alarmTime (webSocketClose now ws code reason wasClean st) =
     (if sockets st = [] then Some (now + 30 * 60 * 1000) else alarmTime st) \<and>
   calls (webSocketClose now ws code reason wasClean st) =
     (if sockets st = [] then calls st @ [SetAlarm (now + 30 * 60 * 1000)] else calls st) \<and>
   (filter (\<lambda>w. ws_id w \<noteq> ws_id ws) (sockets st) \<noteq> [] \<longrightarrow>
      alarmTime (step now (Disconnect ws code reason wasClean) st) = alarmTime st \<and>
      calls (step now (Disconnect ws code reason wasClean) st) = calls st) \<and>
   alarmTime (step now TimerFires st) =
     (if sockets st = [] \<and> 2 * 60 * 60 * 1000 < now - lastActivity st then None
      else Some (now + 30 * 60 * 1000)) \<and>
   alarmTime (scheduleAlarm now st) = Some (now + 30 * 60 * 1000)"
proof -
  have others: "filter (\<lambda>w. ws_id w \<noteq> ws_id ws) (sockets st) \<noteq> [] \<longrightarrow>
      alarmTime (step now (Disconnect ws code reason wasClean) st) = alarmTime st \<and>
      calls (step now (Disconnect ws code reason wasClean) st) = calls st"
    by (cases "sockets st") (simp_all add: handlers prims Let_def)
  have rest: "alarmTime (handleWebSocket now ws st) = Some (now + 30 * 60 * 1000) \<and>
   alarmTime (step now (Request ws ws_request) st) = Some (now + 30 * 60 * 1000) \<and>
   alarmTime (webSocketClose now ws code reason wasClean st) =
     (if sockets st = [] then Some (now + 30 * 60 * 1000) else alarmTime st) \<and>
   calls (webSocketClose now ws code reason wasClean st) =
     (if sockets st = [] then calls st @ [SetAlarm (now + 30 * 60 * 1000)] else calls st) \<and>
   alarmTime (step now TimerFires st) =
     (if sockets st = [] \<and> 2 * 60 * 60 * 1000 < now - lastActivity st then None
      else Some (now + 30 * 60 * 1000)) \<and>
   alarmTime (scheduleAlarm now st) = Some (now + 30 * 60 * 1000)"
    by (simp add: handlers examples prims broadcast_eq Let_def split: sum.splits)
  from others rest show ?thesis by blast
qed

lemma two_connected_eq:
  "sockets two_connected = [good_socket 1, good_socket 2] \<and>
   alarmTime two_connected = Some 1802000 \<and> lastActivity two_connected = 2000"
  by (simp add: two_connected_def handlers examples prims Let_def)

theorem timer_scheduling_witness:
  "alarmTime (step 600000 (Request (good_socket 3) ws_request) two_connected) = Some 2400000 \<and>
   filter (\<lambda>w. ws_id w \<noteq> ws_id (good_socket 1)) (sockets two_connected) = [good_socket 2] \<and>
   alarmTime (step 600000 (Disconnect (good_socket 1) 1000 [] True) two_connected) =
     Some 1802000 \<and>
   calls (step 600000 (Disconnect (good_socket 1) 1000 [] True) two_connected) =
     calls two_connected \<and>
   alarmTime (step 600000 TimerFires two_connected) = Some 2400000"
proof -
  have f: "filter (\<lambda>w. ws_id w \<noteq> ws_id (good_socket 1)) (sockets two_connected) =
      [good_socket 2]"
    by (simp add: two_connected_eq) (simp add: good_socket_def)
  then have h: "filter (\<lambda>w. ws_id w \<noteq> ws_id (good_socket 1)) (sockets two_connected) \<noteq> []"
    by simp
  note leave = timer_scheduling [of 600000 "good_socket 1" two_connected 1000 "[]" True]
  from leave h
  have a: "alarmTime (step 600000 (Disconnect (good_socket 1) 1000 [] True) two_connected) =
      alarmTime two_connected"
    and c: "calls (step 600000 (Disconnect (good_socket 1) 1000 [] True) two_connected) =
      calls two_connected"
    by blast+
  from leave
  have t: "alarmTime (step 600000 TimerFires two_connected) =
     (if sockets two_connected = [] \<and> 2 * 60 * 60 * 1000 < 600000 - lastActivity two_connected
      then None else Some (600000 + 30 * 60 * 1000))"
    by blast
  from timer_scheduling [of 600000 "good_socket 3" two_connected 1000 "[]" True]
  have r: "alarmTime (step 600000 (Request (good_socket 3) ws_request) two_connected) =
      Some (600000 + 30 * 60 * 1000)"
    by blast
  from f a c t r show ?thesis by (simp add: two_connected_eq)
qed

text \<open>
  Claim C4 as stated fails for a disconnect that leaves a socket connected: with two
  sockets connected and the alarm at 1802000, the disconnect of the first at time 600000
  makes no call and leaves the alarm at 1802000, not at \<open>600000 + 30 * 60 * 1000\<close>.
\<close>

theorem disconnect_schedule_counterexample:
  "alarmTime two_connected = Some 1802000 \<and>
   sockets (step 600000 (Disconnect (good_socket 1) 1000 [] True) two_connected) =
     [good_socket 2] \<and>
   alarmTime (step 600000 (Disconnect (good_socket 1) 1000 [] True) two_connected) =
     Some 1802000 \<and>
   alarmTime (step 600000 (Disconnect (good_socket 1) 1000 [] True) two_connected) \<noteq>
     Some (600000 + 30 * 60 * 1000) \<and>
   calls (step 600000 (Disconnect (good_socket 1) 1000 [] True) two_connected) =
     calls two_connected"
  by (simp add: two_connected_def handlers examples prims Let_def)

text \<open>
  A disconnect of a socket that \<^verbatim>\<open>getWebSockets\<close> still lists finds a connection count
  of at least one: the guard \<^verbatim>\<open>connectionCount === 0\<close> is false, no call is made and
  the alarm stays as it was.
\<close>

lemma disconnect_listed_socket:
  assumes "ws \<in> set (sockets st)"
  shows "calls (step now (Disconnect ws code reason wasClean) st) = calls st \<and>
         alarmTime (step now (Disconnect ws code reason wasClean) st) = alarmTime st \<and>
         console (step now (Disconnect ws code reason wasClean) st) =
           console st @ [WebSocketClosed code (length (sockets st))]"
proof -
  from assms have "sockets st \<noteq> []" by auto
  then show ?thesis by (simp add: handlers prims Let_def)
qed

text \<open>
  Claim C5, at a failing input. One socket connects at time 1000 (alarm at 1801000) and
  its transport closes at time 600000, which leaves the live set empty. The handler
  counts the closing socket (console line \<open>WebSocketClosed 1000 1\<close>), does not reach
  \<^verbatim>\<open>scheduleAlarm\<close> and makes no call: the alarm stays at 1801000, and no check is
  scheduled for the emptied session.
\<close>

theorem last_disconnect_sets_no_alarm:
  "alarmTime one_connected = Some 1801000 \<and>
   sockets one_connected = [good_socket 1] \<and>
   sockets (step 600000 (Disconnect (good_socket 1) 1000 [] True) one_connected) = [] \<and>
   alarmTime (step 600000 (Disconnect (good_socket 1) 1000 [] True) one_connected) =
     Some 1801000 \<and>
   calls (step 600000 (Disconnect (good_socket 1) 1000 [] True) one_connected) =
     calls one_connected \<and>
   console (step 600000 (Disconnect (good_socket 1) 1000 [] True) one_connected) =
     console one_connected @ [WebSocketClosed 1000 1]"
  by (simp add: one_connected_def handlers examples prims Let_def)

subsection \<open>Initialisation\<close>

lemma constructor_absent:
  "storage st ''meetupStartTime'' = None \<Longrightarrow>
   constructor now st =
     st\<lparr>lastActivity := now, meetupStartTime := now,
        storage := (storage st)(''meetupStartTime'' \<mapsto> now),
        calls := calls st @ [StorageGet ''meetupStartTime'', StoragePut ''meetupStartTime'' now],
        console := console st @ [InitializedStartTime now]\<rparr>"
  by (simp add: constructor_def prims)

lemma constructor_present:
  "storage st ''meetupStartTime'' = Some v \<Longrightarrow> v \<noteq> 0 \<Longrightarrow>
   constructor now st =
     st\<lparr>lastActivity := now, meetupStartTime := v,
        calls := calls st @ [StorageGet ''meetupStartTime''],
        console := console st @ [LoadedStartTime v]\<rparr>"
  by (simp add: constructor_def prims)

lemma step_start_nonzero:
  assumes "0 < now" and "storage st ''meetupStartTime'' \<noteq> Some 0"
  shows "storage (step now e st) ''meetupStartTime'' \<noteq> Some 0"
proof (cases e)
  case Restart
  with assms show ?thesis
    by (cases "storage st ''meetupStartTime''")
       (simp_all add: constructor_absent constructor_present)
next
  case (Request server req)
  with assms show ?thesis
    by (simp add: handlers prims broadcast_eq Let_def split: sum.splits option.splits prod.splits)
next
  case (ClientMessage ws m)
  with assms show ?thesis by (simp add: handlers)
next
  case (Disconnect ws code reason wasClean)
  with assms show ?thesis by (simp add: handlers prims Let_def)
next
  case (SocketError ws)
  with assms show ?thesis by (simp add: handlers prims)
next
  case TimerFires
  with assms show ?thesis by (simp add: handlers prims broadcast_eq Let_def)
qed

lemma run_start_nonzero:
  "clocks_positive evs \<Longrightarrow> storage st ''meetupStartTime'' \<noteq> Some 0 \<Longrightarrow>
   storage (run evs st) ''meetupStartTime'' \<noteq> Some 0"
proof (induction evs arbitrary: st)
  case Nil
  then show ?case by simp
next
  case (Cons ev evs)
  obtain t e where ev: "ev = (t, e)" by (cases ev)
  with Cons.prems have "0 < t" and rest: "clocks_positive evs"
    by (simp_all add: clocks_positive_def)
  with Cons.prems have "storage (step t e st) ''meetupStartTime'' \<noteq> Some 0"
    by (simp add: step_start_nonzero)
  with rest Cons.IH ev show ?case by simp
qed

lemma restarts_present:
  "storage st ''meetupStartTime'' = Some v \<Longrightarrow> v \<noteq> 0 \<Longrightarrow>
   storage (restarts nows st) = storage st \<and>
   start_writes (restarts nows st) = start_writes st \<and>
   (nows \<noteq> [] \<longrightarrow> meetupStartTime (restarts nows st) = v)"
proof (induction nows arbitrary: st)
  case Nil
  then show ?case by (simp add: restarts_def)
next
  case (Cons t ts)
  let ?st = "constructor t st"
  from Cons.prems have c: "?st = st\<lparr>lastActivity := t, meetupStartTime := v,
        calls := calls st @ [StorageGet ''meetupStartTime''],
        console := console st @ [LoadedStartTime v]\<rparr>"
    by (rule constructor_present)
  then have s: "storage ?st = storage st" and w: "start_writes ?st = start_writes st"
    and m: "meetupStartTime ?st = v"
    by (simp_all add: start_writes_def)
  from s Cons.prems have "storage ?st ''meetupStartTime'' = Some v" by simp
  from Cons.IH [OF this Cons.prems(2)] s w m show ?case
    by (cases ts) (simp_all add: restarts_def)
qed

lemma restarts_at_most_once:
  assumes "\<forall>t \<in> set nows. 0 < t" and "storage st ''meetupStartTime'' \<noteq> Some 0"
  shows "start_writes (restarts nows st) \<le> start_writes st + 1"
proof (cases "storage st ''meetupStartTime''")
  case (Some v)
  with assms have "v \<noteq> 0" by auto
  with Some show ?thesis by (simp add: restarts_present)
next
  case None
  show ?thesis
  proof (cases nows)
    case Nil
    then show ?thesis by (simp add: restarts_def)
  next
    case (Cons t ts)
    let ?st = "constructor t st"
    from Cons assms have "0 < t" by simp
    from None have c: "?st = st\<lparr>lastActivity := t, meetupStartTime := t,
        storage := (storage st)(''meetupStartTime'' \<mapsto> t),
        calls := calls st @ [StorageGet ''meetupStartTime'', StoragePut ''meetupStartTime'' t],
        console := console st @ [InitializedStartTime t]\<rparr>"
      by (rule constructor_absent)
    then have s: "storage ?st ''meetupStartTime'' = Some t"
      and w: "start_writes ?st = start_writes st + 1"
      by (simp_all add: start_writes_def)
    from \<open>0 < t\<close> have "t \<noteq> 0" by simp
    from restarts_present [OF s this, of ts] w Cons show ?thesis
      by (simp add: restarts_def)
  qed
qed

text \<open>
  The guard \<^verbatim>\<open>if (stored)\<close> also takes a stored 0 for a missing key. No run whose clock
  readings are after the epoch stores 0 (lemma \<open>run_start_nonzero\<close>).
\<close>

lemma constructor_stored_zero:
  "storage st ''meetupStartTime'' = Some 0 \<Longrightarrow>
   storage (constructor now st) ''meetupStartTime'' = Some now"
  by (simp add: constructor_def prims)

text \<open>
  Claim C6. In every state a run reaches from the fresh runtime with clock readings
  after the epoch, the constructor reads \<^verbatim>\<open>meetupStartTime\<close> from storage; when the
  key is absent it stores the clock and takes it as start time; when the key holds \<open>v\<close>
  it writes nothing and takes \<open>v\<close>. Hence any sequence of restarts writes the key at
  most once, and writes nothing and keeps the stored value when the key is present.
\<close>

theorem start_time_written_once:
  assumes "clocks_positive evs" and "st = run evs fresh"
    and "\<forall>t \<in> set nows. 0 < t"
  shows "(storage st ''meetupStartTime'' = None \<longrightarrow>
            storage (constructor now st) = (storage st)(''meetupStartTime'' \<mapsto> now) \<and>
            meetupStartTime (constructor now st) = now \<and>
            calls (constructor now st) =
              calls st @ [StorageGet ''meetupStartTime'', StoragePut ''meetupStartTime'' now]) \<and>
         (\<forall>v. storage st ''meetupStartTime'' = Some v \<longrightarrow>
            storage (constructor now st) = storage st \<and>
            meetupStartTime (constructor now st) = v \<and>
            calls (constructor now st) = calls st @ [StorageGet ''meetupStartTime'']) \<and>
         start_writes (restarts nows st) \<le> start_writes st + 1 \<and>
         (\<forall>v. storage st ''meetupStartTime'' = Some v \<longrightarrow>
            storage (restarts nows st) = storage st \<and>
            start_writes (restarts nows st) = start_writes st \<and>
            (nows \<noteq> [] \<longrightarrow> meetupStartTime (restarts nows st) = v))"
proof -
  have nz: "storage st ''meetupStartTime'' \<noteq> Some 0"
    using assms(1,2) by (simp add: run_start_nonzero fresh_def)
  have a: "storage st ''meetupStartTime'' = None \<longrightarrow>
            storage (constructor now st) = (storage st)(''meetupStartTime'' \<mapsto> now) \<and>
            meetupStartTime (constructor now st) = now \<and>
            calls (constructor now st) =
              calls st @ [StorageGet ''meetupStartTime'', StoragePut ''meetupStartTime'' now]"
    by (simp add: constructor_absent)
  have b: "\<forall>v. storage st ''meetupStartTime'' = Some v \<longrightarrow>
            storage (constructor now st) = storage st \<and>
            meetupStartTime (constructor now st) = v \<and>
            calls (constructor now st) = calls st @ [StorageGet ''meetupStartTime'']"
    using nz by (auto simp: constructor_present)
  have c: "start_writes (restarts nows st) \<le> start_writes st + 1"
    using assms(3) nz by (rule restarts_at_most_once)
  have d: "\<forall>v. storage st ''meetupStartTime'' = Some v \<longrightarrow>
            storage (restarts nows st) = storage st \<and>
            start_writes (restarts nows st) = start_writes st \<and>
            (nows \<noteq> [] \<longrightarrow> meetupStartTime (restarts nows st) = v)"
    using nz restarts_present by metis
  from a b c d show ?thesis by blast
qed

lemma one_connected_eq:
  "storage one_connected = [''meetupStartTime'' \<mapsto> 1000] \<and>
   calls one_connected =
     [StorageGet ''meetupStartTime'', StoragePut ''meetupStartTime'' 1000, AcceptWebSocket 1,
      Send 1 (JObj [(''type'', JStr ''connected''), (''timestamp'', ISOString 1000),
                    (''connectionCount'', JNum 1)]),
      SetAlarm 1801000]"
  by (simp add: one_connected_def handlers examples prims Let_def)

theorem start_time_written_once_witness:
  "clocks_positive [(1000, Restart), (1000, Request (good_socket 1) ws_request)] \<and>
   storage one_connected ''meetupStartTime'' = Some 1000 \<and>
   storage (constructor 5000 one_connected) = storage one_connected \<and>
   meetupStartTime (constructor 5000 one_connected) = 1000 \<and>
   storage (restarts [5000, 9000] one_connected) ''meetupStartTime'' = Some 1000 \<and>
   start_writes (restarts [5000, 9000] one_connected) = 1 \<and>
   storage fresh ''meetupStartTime'' = None \<and>
   storage (constructor 1000 fresh) ''meetupStartTime'' = Some 1000 \<and>
   start_writes (restarts [1000, 5000, 9000] fresh) \<le> 1"
proof -
  have pos: "clocks_positive [(1000, Restart), (1000, Request (good_socket 1) ws_request)]"
    by (simp add: clocks_positive_def)
  have reach: "one_connected =
      run [(1000, Restart), (1000, Request (good_socket 1) ws_request)] fresh"
    by (simp add: one_connected_def)
  have later: "\<forall>t \<in> set [5000, 9000::int]. 0 < t" by simp
  have key: "storage one_connected ''meetupStartTime'' = Some 1000"
    by (simp add: one_connected_eq)
  note a = start_time_written_once [OF pos reach later, of 5000]
  from a key have a1: "storage (constructor 5000 one_connected) = storage one_connected"
    and a2: "meetupStartTime (constructor 5000 one_connected) = 1000"
    and a3: "storage (restarts [5000, 9000] one_connected) = storage one_connected"
    and a4: "start_writes (restarts [5000, 9000] one_connected) = start_writes one_connected"
    by blast+
  have w: "start_writes one_connected = 1"
    by (simp add: start_writes_def one_connected_eq)
  have pos0: "clocks_positive []" by (simp add: clocks_positive_def)
  have reach0: "fresh = run [] fresh" by simp
  have all3: "\<forall>t \<in> set [1000, 5000, 9000::int]. 0 < t" by simp
  have key0: "storage fresh ''meetupStartTime'' = None" by (simp add: fresh_def)
  have w0: "start_writes fresh = 0" by (simp add: start_writes_def fresh_def)
  note b = start_time_written_once [OF pos0 reach0 all3, of 1000]
  from b key0 have b1: "storage (constructor 1000 fresh) =
      (storage fresh)(''meetupStartTime'' \<mapsto> 1000)"
    and b2: "start_writes (restarts [1000, 5000, 9000] fresh) \<le> start_writes fresh + 1"
    by blast+
  from pos key a1 a2 a3 a4 w key0 b1 b2 w0 show ?thesis by simp
qed

subsection \<open>The timer below the threshold\<close>

text \<open>
  Claim C7. When the timer fires with no live connection and at most two hours since
  \<open>lastActivity\<close>, the state after differs from the state before in the alarm (set to 30
  minutes later), the one call \<open>SetAlarm\<close> and two console lines: the storage, and the
  start-time key in it, is unchanged, and \<^verbatim>\<open>broadcast\<close> is not run (no \<open>Send\<close>, no
  \<open>Broadcasting\<close> line).
\<close>

theorem timer_before_threshold:
  assumes "length (sockets st) = 0" and "now - lastActivity st \<le> 2 * 60 * 60 * 1000"
  shows "alarm now st =
           st\<lparr>alarmTime := Some (now + 30 * 60 * 1000),
              calls := calls st @ [SetAlarm (now + 30 * 60 * 1000)],
              console := console st @
                [AlarmTriggered (now - lastActivity st) (now - meetupStartTime st) 0,
                 ScheduledAlarm (now + 30 * 60 * 1000)]\<rparr> \<and>
         step now TimerFires st =
           st\<lparr>alarmTime := Some (now + 30 * 60 * 1000),
              calls := calls st @ [SetAlarm (now + 30 * 60 * 1000)],
              console := console st @
                [AlarmTriggered (now - lastActivity st) (now - meetupStartTime st) 0,
                 ScheduledAlarm (now + 30 * 60 * 1000)]\<rparr> \<and>
         storage (step now TimerFires st) ''meetupStartTime'' =
           storage st ''meetupStartTime''"
  using assms by (simp add: handlers prims Let_def)

lemma all_left_eq:
  "lastActivity all_left = 2000 \<and> sockets all_left = [] \<and>
   storage all_left = [''meetupStartTime'' \<mapsto> 1000] \<and> alarmTime all_left = Some 1801000"
  by (simp add: all_left_def handlers examples prims Let_def)

theorem timer_before_threshold_witness:
  "length (sockets all_left) = 0 \<and> 7202000 - lastActivity all_left \<le> 2 * 60 * 60 * 1000 \<and>
   storage (step 7202000 TimerFires all_left) ''meetupStartTime'' = Some 1000 \<and>
   calls (step 7202000 TimerFires all_left) = calls all_left @ [SetAlarm 9002000]"
proof -
  have a: "length (sockets all_left) = 0" by (simp add: all_left_eq)
  have b: "7202000 - lastActivity all_left \<le> 2 * 60 * 60 * 1000" by (simp add: all_left_eq)
  from timer_before_threshold [OF a b]
  have eq: "step 7202000 TimerFires all_left =
           all_left\<lparr>alarmTime := Some (7202000 + 30 * 60 * 1000),
              calls := calls all_left @ [SetAlarm (7202000 + 30 * 60 * 1000)],
              console := console all_left @
                [AlarmTriggered (7202000 - lastActivity all_left)
                   (7202000 - meetupStartTime all_left) 0,
                 ScheduledAlarm (7202000 + 30 * 60 * 1000)]\<rparr>"
    by blast
  have c: "storage (step 7202000 TimerFires all_left) ''meetupStartTime'' = Some 1000"
    by (subst eq) (simp add: all_left_eq)
  have d: "calls (step 7202000 TimerFires all_left) = calls all_left @ [SetAlarm 9002000]"
    by (subst eq) simp
  from a b c d show ?thesis by blast
qed

subsection \<open>Accepting a connection\<close>

text \<open>
  Claim C8. On a new connection the handler accepts the socket, sends
  \<open>{type: 'connected', timestamp, connectionCount}\<close> to that socket, the count being
  the size of the live set with the new socket in it, and sets the alarm. These are all
  its calls: no other socket is sent anything, and when the send throws nothing is sent.
\<close>

theorem connected_acknowledgement:
  "calls (handleWebSocket now ws st) =
     calls st @ [AcceptWebSocket (ws_id ws)] @
     (if send_throws ws then []
      else [Send (ws_id ws)
              (JObj [(''type'', JStr ''connected''),
                     (''timestamp'', ISOString now),
                     (''connectionCount'', JNum (int (length (sockets st)) + 1))])]) @
     [SetAlarm (now + 30 * 60 * 1000)] \<and>
   sockets (handleWebSocket now ws st) = sockets st @ [ws]"
  by (simp add: handlers prims Let_def)

theorem connected_acknowledgement_witness:
  "calls (handleWebSocket 3000 (good_socket 3) two_connected) =
     calls two_connected @
     [AcceptWebSocket 3,
      Send 3 (JObj [(''type'', JStr ''connected''), (''timestamp'', ISOString 3000),
                    (''connectionCount'', JNum 3)]),
      SetAlarm 1803000]"
  using connected_acknowledgement [of 3000 "good_socket 3" two_connected]
  by (simp add: two_connected_def handlers examples prims Let_def)

lemma close_each_closes:
  "filter is_close (calls (close_each wss st)) =
     filter is_close (calls st) @
     map (\<lambda>ws. Close (ws_id ws) 1000 ''Meetup ended'') (filter (\<lambda>ws. \<not> close_throws ws) wss)"
  by (induction wss arbitrary: st) (simp_all add: ws_close_def record_call_def console_log_def)

lemma closeAllConnections_closes:
  "filter is_close (calls (closeAllConnections st)) =
     filter is_close (calls st) @
     map (\<lambda>ws. Close (ws_id ws) 1000 ''Meetup ended'')
         (filter (\<lambda>ws. \<not> close_throws ws) (sockets st))"
  by (simp add: closeAllConnections_def close_each_closes prims Let_def)

lemma closeAllConnections_logs:
  "ClosingConnections (length (sockets st)) \<in> set (console (closeAllConnections st))"
proof -
  have "console (close_each wss s) = console s @ map (\<lambda>ws. ErrorClosingConnection) (filter close_throws wss)" for wss s
    by (induction wss arbitrary: s) (simp_all add: ws_close_def record_call_def console_log_def)
  then show ?thesis
    by (simp add: closeAllConnections_def prims Let_def)
qed

subsection \<open>Closing connections\<close>

text \<open>
  No handler closes a connection: whatever the event, the \<open>Close\<close> calls after it are
  those before it, and \<^verbatim>\<open>closeAllConnections\<close> (whose console line would show) is not
  run. The idle-timeout path runs only with an empty live set; its one call is
  \<open>StorageDeleteAll\<close>.
\<close>

lemma no_handler_closes:
  "filter is_close (calls (step now e st)) = filter is_close (calls st) \<and>
   filter is_closing_line (console (step now e st)) = filter is_closing_line (console st) \<and>
   (sockets st = [] \<and> 2 * 60 * 60 * 1000 < now - lastActivity st \<longrightarrow>
      calls (step now TimerFires st) = calls st @ [StorageDeleteAll] \<and>
      sockets (step now TimerFires st) = [])"
proof -
  have "filter is_close (calls (step now e st)) = filter is_close (calls st) \<and>
   filter is_closing_line (console (step now e st)) = filter is_closing_line (console st)"
    by (cases e)
      (simp_all add: handlers prims broadcast_eq Let_def
         split: sum.splits option.splits prod.splits)
  moreover have "sockets st = [] \<and> 2 * 60 * 60 * 1000 < now - lastActivity st \<longrightarrow>
      calls (step now TimerFires st) = calls st @ [StorageDeleteAll] \<and>
      sockets (step now TimerFires st) = []"
    by (simp add: handlers prims broadcast_eq Let_def)
  ultimately show ?thesis by blast
qed

section \<open>Properties of the verification pipeline\<close>

text \<open>
  Claim C10. For every token whose three segments decode and whose payload carries an
  \<^verbatim>\<open>expiresAt\<close> at or before the current time, \<^verbatim>\<open>verify\<close> fails with \<open>Expired\<close>,
  whatever the policy, the identifier and the signature; an expiry equal to the current
  time is rejected.
\<close>

theorem verify_rejects_expired:
  assumes "decode_assertion P token = Inr d"
    and "expiresAt (payload_of d) = Some e"
    and "e \<le> now"
  shows "verify P now policy token = Inl Expired"
  using assms by (simp add: verify_def)

theorem verify_rejects_expired_witness:
  "decode_assertion (demo_primitives 5000) ''h.p.s'' =
     Inr \<lparr>payload_of = demo_payload 5000, signature_of = ''s'', signing_input = ''h.p''\<rparr> \<and>
   expiresAt (demo_payload 5000) = Some 5000 \<and> (5000::int) \<le> 5000 \<and>
   verify (demo_primitives 5000) 5000 demo_policy ''h.p.s'' = Inl Expired \<and>
   verify (demo_primitives 5000) 4999 demo_policy ''h.p.s'' = Inl InvalidIdentifier"
proof -
  have dec: "decode_assertion (demo_primitives 5000) ''h.p.s'' =
     Inr \<lparr>payload_of = demo_payload 5000, signature_of = ''s'', signing_input = ''h.p''\<rparr>"
    by (simp add: decode_assertion_def demo_primitives_def)
  have ex: "expiresAt (payload_of \<lparr>payload_of = demo_payload 5000, signature_of = ''s'',
      signing_input = ''h.p''\<rparr>) = Some 5000"
    by (simp add: demo_payload_def)
  have le: "(5000::int) \<le> 5000" by simp
  have rej: "verify (demo_primitives 5000) 5000 demo_policy ''h.p.s'' = Inl Expired"
    by (rule verify_rejects_expired [OF dec ex le])
  have acc: "verify (demo_primitives 5000) 4999 demo_policy ''h.p.s'' = Inl InvalidIdentifier"
    unfolding verify_def dec
    by (simp add: demo_payload_def demo_policy_def resolveKey_def demo_primitives_def)
  from dec ex le rej acc show ?thesis by simp
qed

text \<open>Conversely, \<open>Expired\<close> is returned for no other reason.\<close>

lemma verify_expired_only_if:
  assumes "verify P now policy token = Inl Expired"
  shows "\<exists>d e. decode_assertion P token = Inr d \<and> expiresAt (payload_of d) = Some e \<and> e \<le> now"
proof (cases "decode_assertion P token")
  case (Inl err)
  with assms have "err = Expired" by (simp add: verify_def)
  with Inl show ?thesis
    by (auto simp: decode_assertion_def split: list.splits option.splits)
next
  case (Inr d)
  with assms show ?thesis
    by (auto simp: verify_def resolveKey_def split: if_splits option.splits sum.splits)
qed


end
